theory Spec2Isabelle
  imports Main
begin

section \<open>Values exchanged with the FBS plugin\<close>

text \<open>
  The embedding follows \<^verbatim>\<open>src/engine/plugins/fbs/fbs.js\<close>. A JavaScript \<^verbatim>\<open>Error\<close> is
  its message. The callback of a transport request, \<^verbatim>\<open>(err, res) => ...\<close>, and the
  settlement of a promise are a sum: \<open>Inl err\<close> for an error or a rejection, \<open>Inr res\<close>
  for a response or a resolution. Time stamps (\<^verbatim>\<open>new Date().getTime()\<close>) are read from an
  explicit clock argument \<open>now\<close>.
\<close>

datatype error = Error (message: string)

text \<open>
  \<^verbatim>\<open>Object.prototype.hasOwnProperty.call(obj, key)\<close>, for an object given by the list of
  its own property names.
\<close>

definition hasOwnProperty :: "string list \<Rightarrow> string \<Rightarrow> bool" where
  "hasOwnProperty own k = (k \<in> set own)"

text \<open>
  The response of \<^verbatim>\<open>libraryStatus\<close> (built by the transport, which is not part of the
  sources): its own property names, and the truthiness of its \<^verbatim>\<open>onlineStatus\<close>.
\<close>

record library_status =
  res_ownProperties :: "string list"
  onlineStatus :: bool

text \<open>
  The configuration the configuration provider answers with, and the \<^verbatim>\<open>FBS\<close> object.
  The constructor (lines 25-28) assigns \<^verbatim>\<open>this.bus\<close> and \<^verbatim>\<open>this.config\<close> and nothing
  else, so these two are the own properties of every object \<^verbatim>\<open>FBS.create\<close> resolves with.
\<close>

record online_config =
  cfg_threshold :: nat
  cfg_onlineTimeout :: nat
  cfg_offlineTimeout :: nat

record config =
  endpoint :: "string option"
  cfg_onlineState :: "online_config option"
  enableOnlineChecks :: bool

record fbs =
  fbs_ownProperties :: "string list"
  fbs_config :: "config option"

definition FBS_new :: "config option \<Rightarrow> fbs" where
  "FBS_new c = \<lparr>fbs_ownProperties = [''bus'', ''config''], fbs_config = c\<rparr>"

section \<open>The online checker (lines 321-420)\<close>

record online_state =
  online :: bool
  threshold :: nat
  successfulOnlineChecks :: nat
  onlineTimeout :: nat
  offlineTimeout :: nat
  ensureOnlineCheckTimeout :: nat

definition onlineState_initial :: online_state where
  "onlineState_initial =
     \<lparr>online = True, threshold = 5, successfulOnlineChecks = 5, onlineTimeout = 5000,
      offlineTimeout = 30000, ensureOnlineCheckTimeout = 300000\<rparr>"

text \<open>
  Timers. \<^verbatim>\<open>setTimeout\<close> arms a timer and returns its handle, \<^verbatim>\<open>clearTimeout\<close> disarms
  it. Every timer of the plugin calls \<^verbatim>\<open>checkOnlineState\<close>; \<open>role\<close> records which of the
  two variables the handle was assigned to when the timer was armed.
\<close>

datatype timer_role = PollTimer | WatchdogTimer

record timer =
  timer_id :: nat
  delay :: nat
  role :: timer_role

datatype monitor_event =
    StateEvent string int online_state
  | LoggerInfo string

text \<open>
  The state of the checker: the shared \<^verbatim>\<open>onlineState\<close> object, the two timer variables,
  the armed timers, and the events it has emitted on the bus so far (\<^verbatim>\<open>fbs.online\<close>,
  \<^verbatim>\<open>fbs.offline\<close> and \<^verbatim>\<open>logger.info\<close>, names on which no handler of this plugin waits,
  so that they are kept apart from the bus of the request handlers below). The payload
  \<^verbatim>\<open>{timestamp, online: onlineState}\<close> is recorded with the state's value at the emit.
\<close>

record monitor =
  onlineState :: online_state
  checkOnlineStateTimeout :: "nat option"
  ensureCheckOnlineStateTimeout :: "nat option"
  armed :: "timer list"
  nextTimer :: nat
  emitted :: "monitor_event list"

definition monitor_initial :: monitor where
  "monitor_initial =
     \<lparr>onlineState = onlineState_initial, checkOnlineStateTimeout = None,
      ensureCheckOnlineStateTimeout = None, armed = [], nextTimer = 0, emitted = []\<rparr>"

definition setTimeout :: "timer_role \<Rightarrow> nat \<Rightarrow> monitor \<Rightarrow> nat \<times> monitor" where
  "setTimeout r d m =
     (nextTimer m,
      m\<lparr>armed := armed m @ [\<lparr>timer_id = nextTimer m, delay = d, role = r\<rparr>],
        nextTimer := Suc (nextTimer m)\<rparr>)"

definition clearTimeout :: "nat \<Rightarrow> monitor \<Rightarrow> monitor" where
  "clearTimeout i m = m\<lparr>armed := filter (\<lambda>t. timer_id t \<noteq> i) (armed m)\<rparr>"

text \<open>The synchronous part of \<^verbatim>\<open>checkOnlineState\<close>, lines 340-352.\<close>

definition checkOnlineState_start :: "monitor \<Rightarrow> monitor" where
  "checkOnlineState_start m =
     (let m1 = (case ensureCheckOnlineStateTimeout m of
                  None \<Rightarrow> m
                | Some i \<Rightarrow> clearTimeout i m);
          (w, m2) = setTimeout WatchdogTimer
                      (onlineTimeout (onlineState m1) + ensureOnlineCheckTimeout (onlineState m1)) m1;
          m3 = m2\<lparr>ensureCheckOnlineStateTimeout := Some w\<rparr>
      in case checkOnlineStateTimeout m3 of
           None \<Rightarrow> m3
         | Some i \<Rightarrow> (clearTimeout i m3)\<lparr>checkOnlineStateTimeout := None\<rparr>)"

text \<open>\<^verbatim>\<open>checkOnlineStateTimeout = setTimeout(checkOnlineState, d)\<close>.\<close>

definition schedulePoll :: "nat \<Rightarrow> monitor \<Rightarrow> monitor" where
  "schedulePoll d m =
     (let (i, m1) = setTimeout PollTimer d m in m1\<lparr>checkOnlineStateTimeout := Some i\<rparr>)"

definition set_online :: "bool \<Rightarrow> monitor \<Rightarrow> monitor" where
  "set_online v m = m\<lparr>onlineState := (onlineState m)\<lparr>online := v\<rparr>\<rparr>"

definition set_checks :: "nat \<Rightarrow> monitor \<Rightarrow> monitor" where
  "set_checks n m = m\<lparr>onlineState := (onlineState m)\<lparr>successfulOnlineChecks := n\<rparr>\<rparr>"

definition bus_emit_state :: "string \<Rightarrow> int \<Rightarrow> monitor \<Rightarrow> monitor" where
  "bus_emit_state name now m = m\<lparr>emitted := emitted m @ [StateEvent name now (onlineState m)]\<rparr>"

text \<open>
  The continuation of \<^verbatim>\<open>fbs.libraryStatus()\<close> on success, lines 365-391. The test of
  line 367 asks the response for an own property \<^verbatim>\<open>onlineState\<close> and a truthy
  \<^verbatim>\<open>onlineStatus\<close>.
\<close>

definition reports_online :: "library_status \<Rightarrow> bool" where
  "reports_online res = (hasOwnProperty (res_ownProperties res) ''onlineState'' \<and> onlineStatus res)"

definition libraryStatus_resolved :: "int \<Rightarrow> library_status \<Rightarrow> monitor \<Rightarrow> monitor" where
  "libraryStatus_resolved now res m =
     (let m1 =
        (if reports_online res then
           (if threshold (onlineState m) \<le> successfulOnlineChecks (onlineState m) then
              set_online True (schedulePoll (onlineTimeout (onlineState m)) m)
            else
              schedulePoll (offlineTimeout (onlineState m))
                (set_online False (set_checks (Suc (successfulOnlineChecks (onlineState m))) m)))
         else
           schedulePoll (offlineTimeout (onlineState m)) (set_online False (set_checks 0 m)))
      in bus_emit_state (if online (onlineState m1) then ''fbs.online'' else ''fbs.offline'') now m1)"

text \<open>The continuation of \<^verbatim>\<open>fbs.libraryStatus()\<close> on failure, lines 392-401.\<close>

definition libraryStatus_rejected :: "int \<Rightarrow> monitor \<Rightarrow> monitor" where
  "libraryStatus_rejected now m =
     bus_emit_state ''fbs.offline'' now
       (schedulePoll (offlineTimeout (onlineState m)) (set_checks 0 (set_online False m)))"

text \<open>The branch taken when the configuration test of line 363 fails, lines 404-411.\<close>

definition not_configured :: "int \<Rightarrow> monitor \<Rightarrow> monitor" where
  "not_configured now m =
     bus_emit_state ''fbs.offline'' now
       (schedulePoll (offlineTimeout (onlineState m)) (set_checks 0 (set_online False m)))"

text \<open>
  Lines 358-360. Each of the three assignments reads \<^verbatim>\<open>fbs.config.onlineState\<close> when the
  \<^verbatim>\<open>FBS\<close> object has an own property \<^verbatim>\<open>onlineState\<close>; the read throws a
  \<^verbatim>\<open>TypeError\<close> when \<^verbatim>\<open>fbs.config\<close> or \<^verbatim>\<open>fbs.config.onlineState\<close> is undefined.
\<close>

datatype js_exception = TypeError

definition update_configuration :: "fbs \<Rightarrow> online_state \<Rightarrow> js_exception + online_state" where
  "update_configuration f s =
     (if hasOwnProperty (fbs_ownProperties f) ''onlineState'' then
        (case fbs_config f of
           None \<Rightarrow> Inl TypeError
         | Some c \<Rightarrow>
             (case cfg_onlineState c of
                None \<Rightarrow> Inl TypeError
              | Some oc \<Rightarrow>
                  Inr (s\<lparr>threshold := cfg_threshold oc, onlineTimeout := cfg_onlineTimeout oc,
                         offlineTimeout := cfg_offlineTimeout oc\<rparr>)))
      else Inr s)"

text \<open>The test of line 363: \<^verbatim>\<open>fbs.config && hasOwnProperty.call(fbs, 'endpoint')\<close>.\<close>

definition endpoint_configured :: "fbs \<Rightarrow> bool" where
  "endpoint_configured f =
     (fbs_config f \<noteq> None \<and> hasOwnProperty (fbs_ownProperties f) ''endpoint'')"

text \<open>
  The continuation of \<^verbatim>\<open>FBS.create(bus)\<close> on success, lines 355-413, given how the call
  of \<^verbatim>\<open>libraryStatus\<close> it may make settles.
\<close>

definition create_resolved ::
  "int \<Rightarrow> fbs \<Rightarrow> error + library_status \<Rightarrow> monitor \<Rightarrow> js_exception + monitor" where
  "create_resolved now f ls m =
     (case update_configuration f (onlineState m) of
        Inl e \<Rightarrow> Inl e
      | Inr s \<Rightarrow>
          (let m1 = m\<lparr>onlineState := s\<rparr> in
           if endpoint_configured f then
             (case ls of
                Inr res \<Rightarrow> Inr (libraryStatus_resolved now res m1)
              | Inl err \<Rightarrow> Inr (libraryStatus_rejected now m1))
           else Inr (not_configured now m1)))"

text \<open>The continuation of \<^verbatim>\<open>FBS.create(bus)\<close> on failure, lines 414-419.\<close>

definition create_rejected :: "monitor \<Rightarrow> monitor" where
  "create_rejected m =
     schedulePoll (offlineTimeout (onlineState m))
       (m\<lparr>emitted := emitted m @
            [LoggerInfo ''checkOnlineState: FBS.create(bus) promise failed. Retrying.'']\<rparr>)"

text \<open>
  How one poll settles: \<^verbatim>\<open>FBS.create\<close> fails, or it resolves with an object and, where
  \<^verbatim>\<open>libraryStatus\<close> is called, that call settles. An exception thrown in a promise
  continuation rejects the promise \<^verbatim>\<open>then\<close> returned, which nothing observes: the checker's
  state stays as it was.
\<close>

datatype poll_outcome =
    CreateRejected error
  | CreateResolved fbs "error + library_status"

definition checkOnlineState_settle :: "int \<Rightarrow> poll_outcome \<Rightarrow> monitor \<Rightarrow> monitor" where
  "checkOnlineState_settle now outcome m =
     (case outcome of
        CreateRejected err \<Rightarrow> create_rejected m
      | CreateResolved f ls \<Rightarrow>
          (case create_resolved now f ls m of Inl e \<Rightarrow> m | Inr m' \<Rightarrow> m'))"

text \<open>A timer fires: it is no longer armed, and its callback \<^verbatim>\<open>checkOnlineState\<close> runs.\<close>

definition timer_fires :: "nat \<Rightarrow> monitor \<Rightarrow> monitor" where
  "timer_fires i m =
     (if i \<in> timer_id ` set (armed m)
      then checkOnlineState_start (m\<lparr>armed := filter (\<lambda>t. timer_id t \<noteq> i) (armed m)\<rparr>)
      else m)"

text \<open>A poll that runs from its start to the settlement without interleaving.\<close>

definition poll :: "int \<times> poll_outcome \<Rightarrow> monitor \<Rightarrow> monitor" where
  "poll p m = checkOnlineState_settle (fst p) (snd p) (checkOnlineState_start m)"

fun run_polls :: "(int \<times> poll_outcome) list \<Rightarrow> monitor \<Rightarrow> monitor" where
  "run_polls [] m = m"
| "run_polls (p # ps) m = run_polls ps (poll p m)"

section \<open>The event bus\<close>

text \<open>
  Modelled from the spec: the event bus (\<^verbatim>\<open>imports.bus\<close>, a plugin that is not part of the
  sources), "an in-process publish/subscribe mechanism" on which a call is matched to its
  response by one-shot event names. \<^verbatim>\<open>bus.once(name, handler)\<close> subscribes a handler that
  is removed when it is first invoked; \<^verbatim>\<open>bus.emit(name, payload)\<close> invokes, in the order of
  their subscription, the handlers subscribed to \<open>name\<close>. The state keeps the one-shot
  handlers this plugin has subscribed and, in \<open>bus_log\<close>, every event this plugin has
  emitted, in order.
\<close>

type_synonym response = "(string \<times> string) list"

record patron_status =
  validPatron :: string
  validPatronPassword :: string
  chargePrivDenied :: bool
  renewalPrivDenied :: bool
  recallPrivDenied :: bool
  holdPrivDenied :: bool

text \<open>
  The payload of a request, \<^verbatim>\<open>data\<close>. A field the caller may leave out is an option;
  \<^verbatim>\<open>hasOwnProperty.call(data, k)\<close> is \<open>k data \<noteq> None\<close>. (\<^verbatim>\<open>data.file\<close> is \<open>data_file\<close>.)
\<close>

record request =
  username :: string
  password :: string
  itemIdentifier :: string
  noBlockDueDate :: "int option"
  noBlock :: "bool option"
  transactionDate :: "int option"
  checkedInDate :: "int option"
  queued :: "bool option"
  transaction :: "string option"
  data_file :: "string option"
  busEvent :: string
  errorEvent :: string

text \<open>The provisional result \<^verbatim>\<open>material\<close> (lines 527-536 and 612-620).\<close>

record material =
  m_itemIdentifier :: string
  m_offline :: bool
  m_ok :: string
  m_itemProperties_id :: string
  m_itemProperties_title :: string
  m_dueDate :: "int option"

text \<open>The payload of \<^verbatim>\<open>storage.append\<close> and its record \<^verbatim>\<open>obj\<close> (lines 551-564 and 635-646).\<close>

record stored_object =
  obj_date :: "int option"
  obj_action :: string
  obj_username :: "string option"
  obj_password :: "string option"
  obj_itemIdentifier :: string

record append_request =
  append_type :: string
  append_name :: "string option"
  append_obj :: stored_object
  lockFile :: bool
  append_busEvent :: string
  append_errorEvent :: string

text \<open>
  What an event carries: \<^verbatim>\<open>{timestamp}\<close>, \<^verbatim>\<open>{timestamp, results}\<close>, \<^verbatim>\<open>{timestamp, patron}\<close>,
  \<^verbatim>\<open>{timestamp, result}\<close> with a response of the back end or with the provisional
  \<^verbatim>\<open>material\<close>, an error, the request to the store, the job for the offline queue, the
  arguments of \<^verbatim>\<open>fbs.action.result\<close>, and the confirmation the store sends.
\<close>

datatype payload =
    Timestamp int
  | Results int library_status
  | Patron int response
  | Result int response
  | OfflineResult int material
  | Failure error
  | StorageAppend append_request
  | OfflineJob request
  | ActionResult string bool
  | Stored

text \<open>
  The one-shot handlers of the offline fallback (lines 538-547 and 622-631):
  \<^verbatim>\<open>() => bus.emit(data.busEvent, {timestamp, result: material})\<close> and
  \<^verbatim>\<open>err => bus.emit(data.errorEvent, err)\<close>.
\<close>

datatype once_handler =
    DeliverOffline string material
  | DeliverError string

record bus =
  onceListeners :: "(string \<times> once_handler) list"
  bus_log :: "(string \<times> payload) list"

definition bus_initial :: bus where
  "bus_initial = \<lparr>onceListeners = [], bus_log = []\<rparr>"

definition bus_once :: "string \<Rightarrow> once_handler \<Rightarrow> bus \<Rightarrow> bus" where
  "bus_once name h b = b\<lparr>onceListeners := onceListeners b @ [(name, h)]\<rparr>"

text \<open>The first handler subscribed to \<open>name\<close>, and the subscriptions without it.\<close>

fun take_listener ::
  "string \<Rightarrow> (string \<times> once_handler) list \<Rightarrow>
   (once_handler \<times> (string \<times> once_handler) list) option" where
  "take_listener name [] = None"
| "take_listener name ((k, h) # ls) =
     (if k = name then Some (h, ls)
      else (case take_listener name ls of
              None \<Rightarrow> None
            | Some (h', ls') \<Rightarrow> Some (h', (k, h) # ls')))"

text \<open>The event a handler emits when it is invoked with payload \<open>p\<close> at time \<open>now\<close>.\<close>

fun run_handler :: "int \<Rightarrow> once_handler \<Rightarrow> payload \<Rightarrow> string \<times> payload" where
  "run_handler now (DeliverOffline ev mat) p = (ev, OfflineResult now mat)"
| "run_handler now (DeliverError ev) p = (ev, p)"

lemma take_listener_shorter:
  "take_listener name ls = Some (h, ls') \<Longrightarrow> length ls' < length ls"
  by (induction ls arbitrary: h ls') (auto split: if_splits option.splits)

text \<open>
  Delivery of the pending events, the innermost first: the event on top is handed to the
  next handler still subscribed to its name; the handler is unsubscribed, and the event
  it emits is logged and delivered before the event on top goes to the handler after it.
  Every invocation removes a subscription and no handler adds one, so delivery ends.
\<close>

function deliver :: "int \<Rightarrow> (string \<times> payload) list \<Rightarrow> bus \<Rightarrow> bus" where
  "deliver now [] b = b"
| "deliver now ((name, p) # pending) b =
     (case take_listener name (onceListeners b) of
        None \<Rightarrow> deliver now pending b
      | Some (h, ls) \<Rightarrow>
          deliver now (run_handler now h p # (name, p) # pending)
            (b\<lparr>onceListeners := ls, bus_log := bus_log b @ [run_handler now h p]\<rparr>))"
  by pat_completeness auto
termination
  by (relation "measures [\<lambda>(now, pending, b). length (onceListeners b),
                          \<lambda>(now, pending, b). length pending]")
     (auto dest: take_listener_shorter)

text \<open>
  \<^verbatim>\<open>bus.emit\<close> called by this plugin, and an emit by a collaborator (the store answering
  \<^verbatim>\<open>storage.append\<close>). A collaborator answers after the handler that emitted the request
  has returned.
\<close>

definition bus_emit :: "int \<Rightarrow> string \<Rightarrow> payload \<Rightarrow> bus \<Rightarrow> bus" where
  "bus_emit now name p b = deliver now [(name, p)] (b\<lparr>bus_log := bus_log b @ [(name, p)]\<rparr>)"

definition collaborator_emit :: "int \<Rightarrow> string \<Rightarrow> payload \<Rightarrow> bus \<Rightarrow> bus" where
  "collaborator_emit now name p b = deliver now [(name, p)] b"

section \<open>The facade (lines 71-306)\<close>

text \<open>
  Each method hands its arguments to a transport request and settles its promise in the
  request's callback; the callback's arguments are the parameter \<open>cb\<close>. The method
  returns how the promise settles, and the bus after the callback has run.
\<close>

definition FBS_libraryStatus ::
  "int \<Rightarrow> error + library_status \<Rightarrow> bus \<Rightarrow> (error + library_status) \<times> bus" where
  "FBS_libraryStatus now cb b = (cb, b)"

definition FBS_login :: "int \<Rightarrow> error + patron_status \<Rightarrow> bus \<Rightarrow> (error + unit) \<times> bus" where
  "FBS_login now cb b =
     ((case cb of
         Inl err \<Rightarrow> Inl err
       | Inr res \<Rightarrow>
           if validPatron res = ''Y'' \<and> validPatronPassword res = ''Y'' then
             (if chargePrivDenied res \<and> renewalPrivDenied res \<and> recallPrivDenied res \<and>
                 holdPrivDenied res
              then Inl (Error ''login.invalid_login_blocked'')
              else Inr ())
           else Inl (Error ''login.invalid_login_error'')),
      bus_emit now ''fbs.action.result'' (ActionResult ''Login'' (isl cb)) b)"

definition FBS_patronInformation ::
  "int \<Rightarrow> error + response \<Rightarrow> bus \<Rightarrow> (error + response) \<times> bus" where
  "FBS_patronInformation now cb b =
     (cb, bus_emit now ''fbs.action.result'' (ActionResult ''Patron Information'' (isl cb)) b)"

definition FBS_checkout ::
  "int \<Rightarrow> error + response \<Rightarrow> bus \<Rightarrow> (error + response) \<times> bus" where
  "FBS_checkout now cb b =
     (cb, bus_emit now ''fbs.action.result'' (ActionResult ''Checkout'' (isl cb)) b)"

definition FBS_checkIn ::
  "int \<Rightarrow> error + response \<Rightarrow> bus \<Rightarrow> (error + response) \<times> bus" where
  "FBS_checkIn now cb b =
     (cb, bus_emit now ''fbs.action.result'' (ActionResult ''Checkin'' (isl cb)) b)"

definition FBS_renew ::
  "int \<Rightarrow> error + response \<Rightarrow> bus \<Rightarrow> (error + response) \<times> bus" where
  "FBS_renew now cb b =
     (cb, bus_emit now ''fbs.action.result'' (ActionResult ''Renew'' (isl cb)) b)"

definition FBS_renewAll ::
  "int \<Rightarrow> error + response \<Rightarrow> bus \<Rightarrow> (error + response) \<times> bus" where
  "FBS_renewAll now cb b =
     (cb, bus_emit now ''fbs.action.result'' (ActionResult ''Renew All'' (isl cb)) b)"

definition FBS_block ::
  "int \<Rightarrow> error + response \<Rightarrow> bus \<Rightarrow> (error + response) \<times> bus" where
  "FBS_block now cb b =
     (cb, bus_emit now ''fbs.action.result'' (ActionResult ''Block'' (isl cb)) b)"

section \<open>The request handlers (lines 425-726)\<close>

text \<open>
  A handler calls \<^verbatim>\<open>FBS.create(bus)\<close>, whose settlement is the parameter \<open>created\<close>
  (the configuration the object is built with, or the error), then the method of the
  facade, and answers on the event names the caller sent along. \<open>t0\<close> is the time at
  which the request arrives, \<open>t1\<close> the time at which the facade's promise settles. The
  handlers are those of \<^verbatim>\<open>fbs.login\<close> (lines 425-443), \<^verbatim>\<open>fbs.library.status\<close> (448-464),
  \<^verbatim>\<open>fbs.patron\<close> (469-485), \<^verbatim>\<open>fbs.checkout\<close> (490-580), \<^verbatim>\<open>fbs.checkin\<close> (585-662),
  \<^verbatim>\<open>fbs.renew\<close> (667-684), \<^verbatim>\<open>fbs.renew.all\<close> (689-705) and \<^verbatim>\<open>fbs.block\<close> (710-726).
  The arguments a handler passes to the facade (among them \<^verbatim>\<open>noBlock\<close>, false when the
  request has none) go to the transport, whose answer is the parameter \<open>cb\<close>.
\<close>

text \<open>The defaults of a checkout, lines 492-508, and of a check-in, lines 587-590.\<close>

definition checkout_defaults :: "int \<Rightarrow> request \<Rightarrow> request" where
  "checkout_defaults now data =
     data\<lparr>queued := Some (case queued data of None \<Rightarrow> False | Some q \<Rightarrow> q),
          noBlockDueDate := Some (case noBlockDueDate data of
                                    None \<Rightarrow> now + 2678400000
                                  | Some d \<Rightarrow> d),
          transactionDate := Some (case transactionDate data of
                                     None \<Rightarrow> now
                                   | Some t \<Rightarrow> if t = 0 then now else t)\<rparr>"

definition checkin_defaults :: "int \<Rightarrow> request \<Rightarrow> request" where
  "checkin_defaults now data =
     data\<lparr>queued := Some (case queued data of None \<Rightarrow> False | Some q \<Rightarrow> q),
          checkedInDate := Some (case checkedInDate data of
                                   None \<Rightarrow> now
                                 | Some t \<Rightarrow> if t = 0 then now else t)\<rparr>"

text \<open>The names under which the fallback waits for the store.\<close>

definition checkout_stored_event :: "request \<Rightarrow> string" where
  "checkout_stored_event data = ''fbs.checkout.offline.stored'' @ itemIdentifier data"

definition checkout_error_event :: "request \<Rightarrow> string" where
  "checkout_error_event data = ''fbs.checkout.offline.error'' @ itemIdentifier data"

definition checkin_stored_event :: "request \<Rightarrow> string" where
  "checkin_stored_event data = ''fbs.checkin.offline.stored'' @ itemIdentifier data"

definition checkin_error_event :: "request \<Rightarrow> string" where
  "checkin_error_event data = ''fbs.checkin.offline.error'' @ itemIdentifier data"

definition checkout_material :: "request \<Rightarrow> material" where
  "checkout_material data =
     \<lparr>m_itemIdentifier = itemIdentifier data, m_offline = True, m_ok = ''1'',
      m_itemProperties_id = itemIdentifier data, m_itemProperties_title = ''fbs.offline.title'',
      m_dueDate = noBlockDueDate data\<rparr>"

definition checkin_material :: "request \<Rightarrow> material" where
  "checkin_material data =
     \<lparr>m_itemIdentifier = itemIdentifier data, m_offline = True, m_ok = ''1'',
      m_itemProperties_id = itemIdentifier data, m_itemProperties_title = ''fbs.offline.title'',
      m_dueDate = None\<rparr>"

definition checkout_append :: "request \<Rightarrow> append_request" where
  "checkout_append data =
     \<lparr>append_type = ''offline'', append_name = Some (username data),
      append_obj = \<lparr>obj_date = checkedInDate data, obj_action = ''checkout'',
                     obj_username = Some (username data), obj_password = Some (password data),
                     obj_itemIdentifier = itemIdentifier data\<rparr>,
      lockFile = True,
      append_busEvent = checkout_stored_event data,
      append_errorEvent = checkout_error_event data\<rparr>"

definition checkin_append :: "request \<Rightarrow> append_request" where
  "checkin_append data =
     \<lparr>append_type = ''offline'', append_name = transaction data,
      append_obj = \<lparr>obj_date = checkedInDate data, obj_action = ''checkin'',
                     obj_username = None, obj_password = None,
                     obj_itemIdentifier = itemIdentifier data\<rparr>,
      lockFile = True,
      append_busEvent = checkin_stored_event data,
      append_errorEvent = checkin_error_event data\<rparr>"

text \<open>The rejection handler of a checkout, lines 525-573.\<close>

definition checkout_rejected :: "int \<Rightarrow> request \<Rightarrow> error \<Rightarrow> bus \<Rightarrow> bus" where
  "checkout_rejected now data err b =
     (if message err = ''FBS is offline'' \<and> queued data = Some False then
        (let b1 = bus_once (checkout_stored_event data)
                    (DeliverOffline (busEvent data) (checkout_material data)) b;
             b2 = bus_once (checkout_error_event data) (DeliverError (errorEvent data)) b1;
             b3 = bus_emit now ''storage.append'' (StorageAppend (checkout_append data)) b2
         in bus_emit now ''offline.add.checkout''
              (OfflineJob (data\<lparr>data_file := Some (username data)\<rparr>)) b3)
      else bus_emit now (errorEvent data) (Failure err) b)"

text \<open>The rejection handler of a check-in, lines 610-655.\<close>

definition checkin_rejected :: "int \<Rightarrow> request \<Rightarrow> error \<Rightarrow> bus \<Rightarrow> bus" where
  "checkin_rejected now data err b =
     (if message err = ''FBS is offline'' \<and> queued data = Some False then
        (let b1 = bus_once (checkin_stored_event data)
                    (DeliverOffline (busEvent data) (checkin_material data)) b;
             b2 = bus_once (checkin_error_event data) (DeliverError (errorEvent data)) b1;
             b3 = bus_emit now ''storage.append'' (StorageAppend (checkin_append data)) b2
         in bus_emit now ''offline.add.checkin''
              (OfflineJob (data\<lparr>data_file := transaction data\<rparr>)) b3)
      else bus_emit now (errorEvent data) (Failure err) b)"

text \<open>
  The rejection handler of each operation: those of the six other handlers (lines
  434-436, 456-458, 477-479, 676-678, 697-699, 718-720) emit the error on the caller's
  error event.
\<close>

datatype operation =
  Login | LibraryStatus | PatronInformation | Checkout | CheckIn | Renew | RenewAll | Block

fun on_rejected :: "operation \<Rightarrow> int \<Rightarrow> request \<Rightarrow> error \<Rightarrow> bus \<Rightarrow> bus" where
  "on_rejected Checkout now data err b = checkout_rejected now data err b"
| "on_rejected CheckIn now data err b = checkin_rejected now data err b"
| "on_rejected Login now data err b = bus_emit now (errorEvent data) (Failure err) b"
| "on_rejected LibraryStatus now data err b = bus_emit now (errorEvent data) (Failure err) b"
| "on_rejected PatronInformation now data err b = bus_emit now (errorEvent data) (Failure err) b"
| "on_rejected Renew now data err b = bus_emit now (errorEvent data) (Failure err) b"
| "on_rejected RenewAll now data err b = bus_emit now (errorEvent data) (Failure err) b"
| "on_rejected Block now data err b = bus_emit now (errorEvent data) (Failure err) b"

fun request_defaults :: "operation \<Rightarrow> int \<Rightarrow> request \<Rightarrow> request" where
  "request_defaults Checkout now data = checkout_defaults now data"
| "request_defaults CheckIn now data = checkin_defaults now data"
| "request_defaults Login now data = data"
| "request_defaults LibraryStatus now data = data"
| "request_defaults PatronInformation now data = data"
| "request_defaults Renew now data = data"
| "request_defaults RenewAll now data = data"
| "request_defaults Block now data = data"

definition on_fbs_login ::
  "int \<Rightarrow> request \<Rightarrow> error + config option \<Rightarrow> error + patron_status \<Rightarrow> bus \<Rightarrow> bus" where
  "on_fbs_login t1 data created cb b =
     (case created of
        Inl err \<Rightarrow> bus_emit t1 (errorEvent data) (Failure err) b
      | Inr c \<Rightarrow>
          (case FBS_login t1 cb b of
             (Inr u, b1) \<Rightarrow> bus_emit t1 (busEvent data) (Timestamp t1) b1
           | (Inl err, b1) \<Rightarrow> on_rejected Login t1 data err b1))"

definition on_fbs_library_status ::
  "int \<Rightarrow> request \<Rightarrow> error + config option \<Rightarrow> error + library_status \<Rightarrow> bus \<Rightarrow> bus" where
  "on_fbs_library_status t1 data created cb b =
     (case created of
        Inl err \<Rightarrow> bus_emit t1 (errorEvent data) (Failure err) b
      | Inr c \<Rightarrow>
          (case FBS_libraryStatus t1 cb b of
             (Inr res, b1) \<Rightarrow> bus_emit t1 (busEvent data) (Results t1 res) b1
           | (Inl err, b1) \<Rightarrow> on_rejected LibraryStatus t1 data err b1))"

definition on_fbs_patron ::
  "int \<Rightarrow> request \<Rightarrow> error + config option \<Rightarrow> error + response \<Rightarrow> bus \<Rightarrow> bus" where
  "on_fbs_patron t1 data created cb b =
     (case created of
        Inl err \<Rightarrow> bus_emit t1 (errorEvent data) (Failure err) b
      | Inr c \<Rightarrow>
          (case FBS_patronInformation t1 cb b of
             (Inr res, b1) \<Rightarrow> bus_emit t1 (busEvent data) (Patron t1 res) b1
           | (Inl err, b1) \<Rightarrow> on_rejected PatronInformation t1 data err b1))"

definition on_fbs_checkout ::
  "int \<Rightarrow> int \<Rightarrow> request \<Rightarrow> error + config option \<Rightarrow> error + response \<Rightarrow> bus \<Rightarrow> bus" where
  "on_fbs_checkout t0 t1 data created cb b =
     (let data' = request_defaults Checkout t0 data in
      case created of
        Inl err \<Rightarrow> bus_emit t1 (errorEvent data') (Failure err) b
      | Inr c \<Rightarrow>
          (case FBS_checkout t1 cb b of
             (Inr res, b1) \<Rightarrow> bus_emit t1 (busEvent data') (Result t1 res) b1
           | (Inl err, b1) \<Rightarrow> on_rejected Checkout t1 data' err b1))"

definition on_fbs_checkin ::
  "int \<Rightarrow> int \<Rightarrow> request \<Rightarrow> error + config option \<Rightarrow> error + response \<Rightarrow> bus \<Rightarrow> bus" where
  "on_fbs_checkin t0 t1 data created cb b =
     (let data' = request_defaults CheckIn t0 data in
      case created of
        Inl err \<Rightarrow> bus_emit t1 (errorEvent data') (Failure err) b
      | Inr c \<Rightarrow>
          (case FBS_checkIn t1 cb b of
             (Inr res, b1) \<Rightarrow> bus_emit t1 (busEvent data') (Result t1 res) b1
           | (Inl err, b1) \<Rightarrow> on_rejected CheckIn t1 data' err b1))"

definition on_fbs_renew ::
  "int \<Rightarrow> request \<Rightarrow> error + config option \<Rightarrow> error + response \<Rightarrow> bus \<Rightarrow> bus" where
  "on_fbs_renew t1 data created cb b =
     (case created of
        Inl err \<Rightarrow> bus_emit t1 (errorEvent data) (Failure err) b
      | Inr c \<Rightarrow>
          (case FBS_renew t1 cb b of
             (Inr res, b1) \<Rightarrow> bus_emit t1 (busEvent data) (Result t1 res) b1
           | (Inl err, b1) \<Rightarrow> on_rejected Renew t1 data err b1))"

definition on_fbs_renew_all ::
  "int \<Rightarrow> request \<Rightarrow> error + config option \<Rightarrow> error + response \<Rightarrow> bus \<Rightarrow> bus" where
  "on_fbs_renew_all t1 data created cb b =
     (case created of
        Inl err \<Rightarrow> bus_emit t1 (errorEvent data) (Failure err) b
      | Inr c \<Rightarrow>
          (case FBS_renewAll t1 cb b of
             (Inr res, b1) \<Rightarrow> bus_emit t1 (busEvent data) (Result t1 res) b1
           | (Inl err, b1) \<Rightarrow> on_rejected RenewAll t1 data err b1))"

definition on_fbs_block ::
  "int \<Rightarrow> request \<Rightarrow> error + config option \<Rightarrow> error + response \<Rightarrow> bus \<Rightarrow> bus" where
  "on_fbs_block t1 data created cb b =
     (case created of
        Inl err \<Rightarrow> bus_emit t1 (errorEvent data) (Failure err) b
      | Inr c \<Rightarrow>
          (case FBS_block t1 cb b of
             (Inr res, b1) \<Rightarrow> bus_emit t1 (busEvent data) (Result t1 res) b1
           | (Inl err, b1) \<Rightarrow> on_rejected Block t1 data err b1))"

section \<open>Notions the properties are stated with\<close>

text \<open>
  The next poll is scheduled after \<open>d\<close>: the timer armed last is a poll timer with delay
  \<open>d\<close>, and \<^verbatim>\<open>checkOnlineStateTimeout\<close> holds its handle.
\<close>

definition scheduled_after :: "nat \<Rightarrow> monitor \<Rightarrow> bool" where
  "scheduled_after d m =
     (armed m \<noteq> [] \<and> checkOnlineStateTimeout m = Some (timer_id (last (armed m))) \<and>
      delay (last (armed m)) = d \<and> role (last (armed m)) = PollTimer)"

definition armed_as :: "timer_role \<Rightarrow> monitor \<Rightarrow> nat list" where
  "armed_as r m = map timer_id (filter (\<lambda>t. role t = r) (armed m))"

definition state_events :: "monitor \<Rightarrow> monitor_event list" where
  "state_events m =
     filter (\<lambda>e. case e of StateEvent n t s \<Rightarrow> True | LoggerInfo s \<Rightarrow> False) (emitted m)"

text \<open>
  The states the checker can reach, whatever the order in which timers fire and the
  continuations of the polls run: the start of a poll (the call of line 733 is the first),
  a timer that fires, and the settlement of a poll. The handles of the armed timers are
  distinct and have been handed out; the armed watchdog timers, and the armed poll timers,
  are the ones the two variables hold.
\<close>

inductive reachable :: "monitor \<Rightarrow> bool" where
  initial: "reachable monitor_initial"
| starts: "reachable m \<Longrightarrow> reachable (checkOnlineState_start m)"
| fires: "reachable m \<Longrightarrow> reachable (timer_fires i m)"
| settles: "reachable m \<Longrightarrow> reachable (checkOnlineState_settle now outcome m)"

definition timers_wf :: "monitor \<Rightarrow> bool" where
  "timers_wf m =
     (distinct (map timer_id (armed m)) \<and> (\<forall>t \<in> set (armed m). timer_id t < nextTimer m))"

definition watchdog_known :: "monitor \<Rightarrow> bool" where
  "watchdog_known m =
     (\<forall>t \<in> set (armed m). role t = WatchdogTimer \<longrightarrow>
        ensureCheckOnlineStateTimeout m = Some (timer_id t))"

definition poll_timer_known :: "monitor \<Rightarrow> bool" where
  "poll_timer_known m =
     (\<forall>t \<in> set (armed m). role t = PollTimer \<longrightarrow>
        checkOnlineStateTimeout m = Some (timer_id t))"



text \<open>
  The three kinds of poll. \<open>config_read_throws\<close> says that the read of line 358 throws.
  A poll reaches an online report when it runs the success continuation of
  \<^verbatim>\<open>libraryStatus\<close> with a response that passes the test of line 367; it leaves the
  shared state untouched when \<^verbatim>\<open>FBS.create\<close> failed or line 358 threw; every other poll
  (no endpoint, \<^verbatim>\<open>libraryStatus\<close> failed, or a response that fails the test) resets.
\<close>

definition config_read_throws :: "fbs \<Rightarrow> bool" where
  "config_read_throws f =
     (hasOwnProperty (fbs_ownProperties f) ''onlineState'' \<and>
      (case fbs_config f of None \<Rightarrow> True | Some c \<Rightarrow> cfg_onlineState c = None))"

fun reaches_online_report :: "poll_outcome \<Rightarrow> bool" where
  "reaches_online_report (CreateRejected err) = False"
| "reaches_online_report (CreateResolved f ls) =
     (\<not> config_read_throws f \<and> endpoint_configured f \<and>
      (case ls of Inl err \<Rightarrow> False | Inr res \<Rightarrow> reports_online res))"

fun leaves_untouched :: "poll_outcome \<Rightarrow> bool" where
  "leaves_untouched (CreateRejected err) = True"
| "leaves_untouched (CreateResolved f ls) = config_read_throws f"

definition resets :: "poll_outcome \<Rightarrow> bool" where
  "resets outcome = (\<not> reaches_online_report outcome \<and> \<not> leaves_untouched outcome)"

text \<open>
  The number of polls that reached an online report since the last poll that reset
  (polls that leave the state untouched neither count nor interrupt).
\<close>

definition online_streak :: "(int \<times> poll_outcome) list \<Rightarrow> nat" where
  "online_streak ps =
     length (filter (\<lambda>p. reaches_online_report (snd p))
               (takeWhile (\<lambda>p. \<not> resets (snd p)) (rev ps)))"

text \<open>
  No one-shot handler of the plugin is subscribed to \<open>name\<close>; and a request whose event
  names, and the names its fallback uses, are not subscribed to and are told apart.
\<close>

definition unsubscribed :: "bus \<Rightarrow> string \<Rightarrow> bool" where
  "unsubscribed b name = (name \<notin> fst ` set (onceListeners b))"





subsection \<open>Sample values\<close>

definition online_response :: library_status where
  "online_response =
     \<lparr>res_ownProperties = [''onlineState'', ''onlineStatus''], onlineStatus = True\<rparr>"

definition sample_config :: config where
  "sample_config =
     \<lparr>endpoint = Some ''https://fbs.example/sip2'',
      cfg_onlineState = Some \<lparr>cfg_threshold = 5, cfg_onlineTimeout = 5000, cfg_offlineTimeout = 30000\<rparr>,
      enableOnlineChecks = True\<rparr>"

definition offline_monitor :: monitor where
  "offline_monitor =
     monitor_initial\<lparr>onlineState := onlineState_initial\<lparr>online := False, successfulOnlineChecks := 0\<rparr>\<rparr>"

definition sample_request :: request where
  "sample_request =
     \<lparr>username = ''patron-1'', password = ''1234'', itemIdentifier = ''item-7'',
      noBlockDueDate = None, noBlock = None, transactionDate = None, checkedInDate = None,
      queued = None, transaction = Some ''txn-3'', data_file = None,
      busEvent = ''caller.done'', errorEvent = ''caller.failed''\<rparr>"

definition offline_error :: error where
  "offline_error = Error ''FBS is offline''"

definition endpoint_fbs :: fbs where
  "endpoint_fbs =
     \<lparr>fbs_ownProperties = [''bus'', ''config'', ''endpoint''], fbs_config = Some sample_config\<rparr>"

definition interrupted_polls :: "(int \<times> poll_outcome) list" where
  "interrupted_polls =
     [(1, CreateResolved endpoint_fbs (Inr online_response)),
      (2, CreateResolved endpoint_fbs (Inr online_response)),
      (3, CreateResolved endpoint_fbs (Inr online_response)),
      (4, CreateRejected (Error ''no configuration'')),
      (5, CreateResolved endpoint_fbs (Inr online_response)),
      (6, CreateResolved endpoint_fbs (Inr online_response)),
      (7, CreateResolved endpoint_fbs (Inr online_response))]"

definition other_request :: request where
  "other_request =
     sample_request\<lparr>username := ''patron-2'', password := ''9876'',
                      busEvent := ''other.done'', errorEvent := ''other.failed''\<rparr>"

lemmas sample_defs =
  online_response_def sample_config_def offline_monitor_def monitor_initial_def
  onlineState_initial_def

section \<open>Facts about the online checker\<close>

lemma schedulePoll_simps:
  "onlineState (schedulePoll d m) = onlineState m"
  "emitted (schedulePoll d m) = emitted m"
  "scheduled_after d' (schedulePoll d m) = (d' = d)"
  by (auto simp: schedulePoll_def setTimeout_def scheduled_after_def)

lemma set_simps:
  "onlineState (set_online v m) = (onlineState m)\<lparr>online := v\<rparr>"
  "onlineState (set_checks n m) = (onlineState m)\<lparr>successfulOnlineChecks := n\<rparr>"
  "emitted (set_online v m) = emitted m"
  "emitted (set_checks n m) = emitted m"
  "scheduled_after d (set_online v m) = scheduled_after d m"
  "scheduled_after d (set_checks n m) = scheduled_after d m"
  by (simp_all add: set_online_def set_checks_def scheduled_after_def)

lemma bus_emit_state_simps:
  "onlineState (bus_emit_state name now m) = onlineState m"
  "emitted (bus_emit_state name now m) = emitted m @ [StateEvent name now (onlineState m)]"
  "scheduled_after d (bus_emit_state name now m) = scheduled_after d m"
  by (simp_all add: bus_emit_state_def scheduled_after_def)

lemma start_onlineState: "onlineState (checkOnlineState_start m) = onlineState m"
  by (simp add: checkOnlineState_start_def clearTimeout_def setTimeout_def Let_def split: option.splits)

lemma start_emitted: "emitted (checkOnlineState_start m) = emitted m"
  by (simp add: checkOnlineState_start_def clearTimeout_def setTimeout_def Let_def split: option.splits)

lemma resolved_online_state:
  "reports_online res \<Longrightarrow>
   onlineState (libraryStatus_resolved now res m) =
     (if threshold (onlineState m) \<le> successfulOnlineChecks (onlineState m)
      then (onlineState m)\<lparr>online := True\<rparr>
      else (onlineState m)\<lparr>successfulOnlineChecks := Suc (successfulOnlineChecks (onlineState m)), online := False\<rparr>)"
  by (simp add: libraryStatus_resolved_def Let_def bus_emit_state_simps set_simps schedulePoll_simps)

lemma resolved_offline_state:
  "\<not> reports_online res \<Longrightarrow>
   onlineState (libraryStatus_resolved now res m) =
     (onlineState m)\<lparr>successfulOnlineChecks := 0, online := False\<rparr>"
  by (simp add: libraryStatus_resolved_def Let_def bus_emit_state_simps set_simps schedulePoll_simps)

lemma rejected_state:
  "onlineState (libraryStatus_rejected now m) = (onlineState m)\<lparr>online := False, successfulOnlineChecks := 0\<rparr>"
  by (simp add: libraryStatus_rejected_def bus_emit_state_simps set_simps schedulePoll_simps)

lemma not_configured_state:
  "onlineState (not_configured now m) = (onlineState m)\<lparr>online := False, successfulOnlineChecks := 0\<rparr>"
  by (simp add: not_configured_def bus_emit_state_simps set_simps schedulePoll_simps)

lemma resolved_effects:
  "emitted (libraryStatus_resolved now res m) =
     emitted m @ [StateEvent (if online (onlineState (libraryStatus_resolved now res m))
                              then ''fbs.online'' else ''fbs.offline'') now
                     (onlineState (libraryStatus_resolved now res m))]"
  "scheduled_after
     (if online (onlineState (libraryStatus_resolved now res m))
      then onlineTimeout (onlineState m) else offlineTimeout (onlineState m))
     (libraryStatus_resolved now res m)"
  by (simp_all add: libraryStatus_resolved_def Let_def bus_emit_state_simps set_simps schedulePoll_simps)

lemma create_rejected_simps:
  "onlineState (create_rejected m) = onlineState m"
  "emitted (create_rejected m) =
     emitted m @ [LoggerInfo ''checkOnlineState: FBS.create(bus) promise failed. Retrying.'']"
  "scheduled_after d (create_rejected m) = (d = offlineTimeout (onlineState m))"
  by (auto simp: create_rejected_def schedulePoll_def setTimeout_def scheduled_after_def)

lemma update_configuration_throws:
  "config_read_throws f \<Longrightarrow> update_configuration f s = Inl TypeError"
  by (auto simp: config_read_throws_def update_configuration_def split: option.splits)

lemma update_configuration_ok:
  "\<not> config_read_throws f \<Longrightarrow> \<exists>s'. update_configuration f s = Inr s' \<and> online s' = online s \<and>
      successfulOnlineChecks s' = successfulOnlineChecks s"
  by (auto simp: config_read_throws_def update_configuration_def split: option.splits)

lemma poll_untouched:
  "leaves_untouched (snd p) \<Longrightarrow> onlineState (poll p m) = onlineState m \<and>
     state_events (poll p m) = state_events m"
  by (cases p; cases "snd p")
     (auto simp: poll_def checkOnlineState_settle_def create_rejected_def create_resolved_def
       schedulePoll_simps start_onlineState start_emitted update_configuration_throws state_events_def)

lemma poll_resets:
  assumes "resets outcome"
  shows "successfulOnlineChecks (onlineState (poll (now, outcome) m)) = 0 \<and>
         \<not> online (onlineState (poll (now, outcome) m)) \<and>
         emitted (poll (now, outcome) m) =
           emitted m @ [StateEvent ''fbs.offline'' now (onlineState (poll (now, outcome) m))] \<and>
         scheduled_after (offlineTimeout (onlineState (poll (now, outcome) m))) (poll (now, outcome) m)"
proof (cases outcome)
  case (CreateRejected err)
  with assms show ?thesis by (simp add: resets_def)
next
  case (CreateResolved f ls)
  with assms have nt: "\<not> config_read_throws f" by (simp add: resets_def)
  obtain s' where s': "update_configuration f (onlineState m) = Inr s'"
    using update_configuration_ok [OF nt] by blast
  from assms CreateResolved nt
  have bad: "\<not> endpoint_configured f \<or> (\<exists>err. ls = Inl err) \<or> (\<exists>res. ls = Inr res \<and> \<not> reports_online res)"
    by (cases ls) (auto simp: resets_def)
  show ?thesis
    unfolding CreateResolved using bad
    by (auto simp: poll_def checkOnlineState_settle_def create_resolved_def s' start_onlineState
          start_emitted Let_def libraryStatus_resolved_def libraryStatus_rejected_def
          not_configured_def bus_emit_state_simps set_simps schedulePoll_simps)
qed

lemma poll_online_report:
  assumes "reaches_online_report outcome"
  shows "\<exists>s'. online s' = online (onlineState m) \<and>
           successfulOnlineChecks s' = successfulOnlineChecks (onlineState m) \<and>
           onlineState (poll (now, outcome) m) =
             (if threshold s' \<le> successfulOnlineChecks s' then s'\<lparr>online := True\<rparr>
              else s'\<lparr>successfulOnlineChecks := Suc (successfulOnlineChecks s'), online := False\<rparr>)"
proof (cases outcome)
  case (CreateRejected err)
  with assms show ?thesis by simp
next
  case (CreateResolved f ls)
  with assms have nt: "\<not> config_read_throws f" and ec: "endpoint_configured f" by simp_all
  from assms CreateResolved obtain res where ls: "ls = Inr res" and ro: "reports_online res"
    by (cases ls) auto
  obtain s' where s': "update_configuration f (onlineState m) = Inr s'"
     and k: "online s' = online (onlineState m)" "successfulOnlineChecks s' = successfulOnlineChecks (onlineState m)"
    using update_configuration_ok [OF nt] by blast
  have "onlineState (poll (now, outcome) m) =
             (if threshold s' \<le> successfulOnlineChecks s' then s'\<lparr>online := True\<rparr>
              else s'\<lparr>successfulOnlineChecks := Suc (successfulOnlineChecks s'), online := False\<rparr>)"
    unfolding CreateResolved
    by (simp add: poll_def checkOnlineState_settle_def create_resolved_def s' ec ls
          start_onlineState Let_def resolved_online_state [OF ro])
  with k show ?thesis by blast
qed

lemma poll_publishes:
  assumes "\<not> leaves_untouched outcome"
  shows "emitted (poll (now, outcome) m) =
           emitted m @ [StateEvent (if online (onlineState (poll (now, outcome) m))
                                    then ''fbs.online'' else ''fbs.offline'') now
                          (onlineState (poll (now, outcome) m))]"
proof (cases "reaches_online_report outcome")
  case False
  with assms have "resets outcome" by (simp add: resets_def)
  from poll_resets [OF this, of now m] show ?thesis by simp
next
  case True
  then obtain f res where o: "outcome = CreateResolved f (Inr res)"
    and nt: "\<not> config_read_throws f" and ec: "endpoint_configured f"
    by (cases outcome; cases "case outcome of CreateResolved f ls \<Rightarrow> ls") auto
  obtain s' where s': "update_configuration f (onlineState m) = Inr s'"
    using update_configuration_ok [OF nt] by blast
  have p: "poll (now, outcome) m =
             libraryStatus_resolved now res ((checkOnlineState_start m)\<lparr>onlineState := s'\<rparr>)"
    by (simp add: o poll_def checkOnlineState_settle_def create_resolved_def s' ec
          start_onlineState Let_def)
  show ?thesis
    unfolding p
    using resolved_effects(1) [of now res "(checkOnlineState_start m)\<lparr>onlineState := s'\<rparr>"]
    by (simp add: start_emitted)
qed

lemma run_polls_snoc: "run_polls (ps @ [p]) m = poll p (run_polls ps m)"
  by (induction ps arbitrary: m) simp_all

lemma online_streak_snoc:
  "online_streak (ps @ [p]) =
     (if resets (snd p) then 0
      else (if reaches_online_report (snd p) then 1 else 0) + online_streak ps)"
  by (simp add: online_streak_def resets_def)

lemma streak_invariant:
  assumes "successfulOnlineChecks (onlineState m) = 0" and "\<not> online (onlineState m)"
  shows "successfulOnlineChecks (onlineState (run_polls ps m)) \<le> online_streak ps \<and>
         (online (onlineState (run_polls ps m)) \<longrightarrow>
            threshold (onlineState (run_polls ps m)) \<le> successfulOnlineChecks (onlineState (run_polls ps m)) \<and>
            successfulOnlineChecks (onlineState (run_polls ps m)) < online_streak ps)"
proof (induction ps rule: rev_induct)
  case Nil
  with assms show ?case by (simp add: online_streak_def)
next
  case (snoc p ps)
  let ?m = "run_polls ps m"
  consider (r) "resets (snd p)" | (u) "leaves_untouched (snd p)" | (g) "reaches_online_report (snd p)"
    by (auto simp: resets_def)
  then show ?case
  proof cases
    case r
    then show ?thesis using poll_resets [OF r, of "fst p" ?m]
      by (simp add: run_polls_snoc online_streak_snoc)
  next
    case u
    then have nr: "\<not> resets (snd p)" and ng: "\<not> reaches_online_report (snd p)"
      by (cases "snd p"; auto simp: resets_def)+
    show ?thesis using snoc poll_untouched [OF u, of ?m]
      by (simp add: run_polls_snoc online_streak_snoc nr ng)
  next
    case g
    then have nr: "\<not> resets (snd p)" by (simp add: resets_def)
    from poll_online_report [OF g, of ?m "fst p"] obtain s' where
      a: "online s' = online (onlineState ?m)"
      and b: "successfulOnlineChecks s' = successfulOnlineChecks (onlineState ?m)"
      and c: "onlineState (poll (fst p, snd p) ?m) =
             (if threshold s' \<le> successfulOnlineChecks s' then s'\<lparr>online := True\<rparr>
              else s'\<lparr>successfulOnlineChecks := Suc (successfulOnlineChecks s'), online := False\<rparr>)"
      by blast
    have c': "onlineState (poll p ?m) =
             (if threshold s' \<le> successfulOnlineChecks s' then s'\<lparr>online := True\<rparr>
              else s'\<lparr>successfulOnlineChecks := Suc (successfulOnlineChecks s'), online := False\<rparr>)"
      using c by simp
    show ?thesis using snoc b
      by (simp add: run_polls_snoc online_streak_snoc nr g c')
  qed
qed



text \<open>
  Timers. In every reachable state at most one watchdog timer is armed. As long as every
  poll settles before the next one starts, at most one poll timer is armed.
\<close>

lemma at_most_one_equal:
  "distinct xs \<Longrightarrow> \<forall>x \<in> set xs. x = a \<Longrightarrow> length xs \<le> Suc 0"
  by (cases xs; cases "tl xs") auto

lemma known_at_most_one:
  assumes "distinct (map timer_id ts)"
    and "\<forall>t \<in> set ts. role t = r \<longrightarrow> v = Some (timer_id t)"
  shows "length (map timer_id (filter (\<lambda>t. role t = r) ts)) \<le> Suc 0"
proof (cases v)
  case None
  with assms(2) have "filter (\<lambda>t. role t = r) ts = []"
    by (auto simp: filter_empty_conv)
  then show ?thesis by simp
next
  case (Some a)
  have d: "distinct (map timer_id (filter (\<lambda>t. role t = r) ts))"
    using assms(1) by (rule distinct_map_filter)
  have "\<forall>x \<in> set (map timer_id (filter (\<lambda>t. role t = r) ts)). x = a"
    using assms(2) Some by auto
  from at_most_one_equal [OF d this] show ?thesis .
qed

lemma start_wf: "timers_wf m \<Longrightarrow> timers_wf (checkOnlineState_start m)"
  by (auto simp: timers_wf_def checkOnlineState_start_def setTimeout_def clearTimeout_def Let_def
        distinct_map_filter split: option.splits)

lemma schedulePoll_wf: "timers_wf m \<Longrightarrow> timers_wf (schedulePoll d m)"
  by (auto simp: timers_wf_def schedulePoll_def setTimeout_def)

lemma record_update_wf:
  "timers_wf (set_online v m) = timers_wf m"
  "timers_wf (set_checks n m) = timers_wf m"
  "timers_wf (bus_emit_state name now m) = timers_wf m"
  "timers_wf (m\<lparr>onlineState := s\<rparr>) = timers_wf m"
  "timers_wf (m\<lparr>emitted := es\<rparr>) = timers_wf m"
  by (simp_all add: timers_wf_def set_online_def set_checks_def bus_emit_state_def)

lemma settle_wf: "timers_wf m \<Longrightarrow> timers_wf (checkOnlineState_settle now outcome m)"
  by (auto simp: checkOnlineState_settle_def create_rejected_def create_resolved_def Let_def
        libraryStatus_resolved_def libraryStatus_rejected_def not_configured_def
        schedulePoll_wf record_update_wf
        split: poll_outcome.splits sum.splits if_splits)

lemma fires_wf: "timers_wf m \<Longrightarrow> timers_wf (timer_fires i m)"
proof -
  assume wf: "timers_wf m"
  then have "timers_wf (m\<lparr>armed := filter (\<lambda>t. timer_id t \<noteq> i) (armed m)\<rparr>)"
    by (auto simp: timers_wf_def distinct_map_filter)
  then show ?thesis
    using wf by (simp add: timer_fires_def start_wf)
qed

lemma start_watchdog_known:
  "timers_wf m \<Longrightarrow> watchdog_known m \<Longrightarrow> watchdog_known (checkOnlineState_start m)"
  by (auto simp: timers_wf_def watchdog_known_def checkOnlineState_start_def setTimeout_def
        clearTimeout_def Let_def split: option.splits)

lemma schedulePoll_watchdog_known: "watchdog_known m \<Longrightarrow> watchdog_known (schedulePoll d m)"
  by (auto simp: watchdog_known_def schedulePoll_def setTimeout_def)

lemma record_update_watchdog_known:
  "watchdog_known (set_online v m) = watchdog_known m"
  "watchdog_known (set_checks n m) = watchdog_known m"
  "watchdog_known (bus_emit_state name now m) = watchdog_known m"
  "watchdog_known (m\<lparr>onlineState := s\<rparr>) = watchdog_known m"
  "watchdog_known (m\<lparr>emitted := es\<rparr>) = watchdog_known m"
  by (simp_all add: watchdog_known_def set_online_def set_checks_def bus_emit_state_def)

lemma settle_watchdog_known:
  "watchdog_known m \<Longrightarrow> watchdog_known (checkOnlineState_settle now outcome m)"
  by (auto simp: checkOnlineState_settle_def create_rejected_def create_resolved_def Let_def
        libraryStatus_resolved_def libraryStatus_rejected_def not_configured_def
        schedulePoll_watchdog_known record_update_watchdog_known
        split: poll_outcome.splits sum.splits if_splits)

lemma fires_watchdog_known:
  assumes "timers_wf m" and "watchdog_known m"
  shows "watchdog_known (timer_fires i m)"
proof -
  have "timers_wf (m\<lparr>armed := filter (\<lambda>t. timer_id t \<noteq> i) (armed m)\<rparr>)"
    using assms(1) by (auto simp: timers_wf_def distinct_map_filter)
  moreover have "watchdog_known (m\<lparr>armed := filter (\<lambda>t. timer_id t \<noteq> i) (armed m)\<rparr>)"
    using assms(2) by (auto simp: watchdog_known_def)
  ultimately show ?thesis
    using assms(2) by (simp add: timer_fires_def start_watchdog_known)
qed

lemma reachable_invariant: "reachable m \<Longrightarrow> timers_wf m \<and> watchdog_known m"
proof (induction rule: reachable.induct)
  case initial
  show ?case by (simp add: timers_wf_def watchdog_known_def monitor_initial_def)
next
  case (starts m)
  then show ?case by (simp add: start_wf start_watchdog_known)
next
  case (fires m i)
  then show ?case by (simp add: fires_wf fires_watchdog_known)
next
  case (settles m now outcome)
  then show ?case by (simp add: settle_wf settle_watchdog_known)
qed

lemma one_watchdog_at_most: "reachable m \<Longrightarrow> length (armed_as WatchdogTimer m) \<le> 1"
  using reachable_invariant [of m]
        known_at_most_one [of "armed m" WatchdogTimer "ensureCheckOnlineStateTimeout m"]
  by (simp add: armed_as_def timers_wf_def watchdog_known_def)

lemma start_clears_poll_timers:
  assumes "poll_timer_known m"
  shows "\<forall>t \<in> set (armed (checkOnlineState_start m)). role t \<noteq> PollTimer"
  using assms
  by (auto simp: poll_timer_known_def checkOnlineState_start_def setTimeout_def clearTimeout_def
        Let_def split: option.splits)

lemma schedulePoll_poll_timer_known:
  "\<forall>t \<in> set (armed m). role t \<noteq> PollTimer \<Longrightarrow> poll_timer_known (schedulePoll d m)"
  by (auto simp: poll_timer_known_def schedulePoll_def setTimeout_def)

lemma poll_free_known:
  "\<forall>t \<in> set (armed m). role t \<noteq> PollTimer \<Longrightarrow> poll_timer_known m"
  by (simp add: poll_timer_known_def)

lemma record_update_armed:
  "armed (set_online v m) = armed m"
  "armed (set_checks n m) = armed m"
  by (simp_all add: set_online_def set_checks_def)

lemma record_update_poll_timer_known:
  "poll_timer_known (set_online v m) = poll_timer_known m"
  "poll_timer_known (set_checks n m) = poll_timer_known m"
  "poll_timer_known (bus_emit_state name now m) = poll_timer_known m"
  "poll_timer_known (m\<lparr>emitted := es\<rparr>) = poll_timer_known m"
  by (simp_all add: poll_timer_known_def set_online_def set_checks_def bus_emit_state_def)

lemma settle_poll_timer_known:
  assumes "\<forall>t \<in> set (armed m). role t \<noteq> PollTimer"
  shows "poll_timer_known (checkOnlineState_settle now outcome m)"
  using assms poll_free_known [OF assms]
  by (auto simp: checkOnlineState_settle_def create_rejected_def create_resolved_def Let_def
        libraryStatus_resolved_def libraryStatus_rejected_def not_configured_def
        schedulePoll_poll_timer_known record_update_poll_timer_known record_update_armed
        split: poll_outcome.splits sum.splits if_splits)

lemma run_polls_invariant:
  "timers_wf m \<Longrightarrow> poll_timer_known m \<Longrightarrow>
   timers_wf (run_polls ps m) \<and> poll_timer_known (run_polls ps m)"
proof (induction ps arbitrary: m)
  case Nil
  then show ?case by simp
next
  case (Cons p ps)
  have "timers_wf (poll p m)"
    using Cons.prems(1) by (simp add: poll_def start_wf settle_wf)
  moreover have "poll_timer_known (poll p m)"
    using Cons.prems(2) by (simp add: poll_def settle_poll_timer_known start_clears_poll_timers)
  ultimately show ?case
    using Cons.IH by simp
qed

lemma one_poll_timer_without_overlap:
  "length (armed_as PollTimer (run_polls ps monitor_initial)) \<le> 1"
proof -
  have "timers_wf monitor_initial" and "poll_timer_known monitor_initial"
    by (simp_all add: timers_wf_def poll_timer_known_def monitor_initial_def)
  from run_polls_invariant [OF this, of ps]
       known_at_most_one [of "armed (run_polls ps monitor_initial)" PollTimer
                             "checkOnlineStateTimeout (run_polls ps monitor_initial)"]
  show ?thesis
    by (simp add: armed_as_def timers_wf_def poll_timer_known_def)
qed

text \<open>
  The object \<^verbatim>\<open>FBS.create\<close> resolves with has the own properties \<^verbatim>\<open>bus\<close> and
  \<^verbatim>\<open>config\<close>: it fails the test of line 363 whatever its configuration holds, and the
  tests of lines 358-360 leave the thresholds and timeouts as they are.
\<close>

lemma FBS_new_not_configured: "\<not> endpoint_configured (FBS_new c)"
  by (simp add: endpoint_configured_def FBS_new_def hasOwnProperty_def)

lemma FBS_new_keeps_configuration: "update_configuration (FBS_new c) s = Inr s"
  by (simp add: update_configuration_def FBS_new_def hasOwnProperty_def)

lemma first_online_report_stays_online:
  "reports_online res \<Longrightarrow>
   onlineState (libraryStatus_resolved now res monitor_initial) = onlineState_initial \<and>
   emitted (libraryStatus_resolved now res monitor_initial) =
     [StateEvent ''fbs.online'' now onlineState_initial] \<and>
   scheduled_after 5000 (libraryStatus_resolved now res monitor_initial)"
  by (simp add: libraryStatus_resolved_def Let_def monitor_initial_def onlineState_initial_def
        set_online_def set_checks_def schedulePoll_def setTimeout_def bus_emit_state_def
        scheduled_after_def)

lemmas checker_defs =
  poll_def checkOnlineState_settle_def checkOnlineState_start_def create_resolved_def
  create_rejected_def update_configuration_def endpoint_configured_def
  libraryStatus_resolved_def libraryStatus_rejected_def not_configured_def reports_online_def
  hasOwnProperty_def schedulePoll_def setTimeout_def clearTimeout_def set_online_def
  set_checks_def bus_emit_state_def FBS_new_def timer_fires_def

lemma interrupted_polls_run:
  "onlineState (run_polls interrupted_polls offline_monitor) =
     onlineState_initial\<lparr>online := True, successfulOnlineChecks := 5\<rparr>"
  by (simp add: interrupted_polls_def endpoint_fbs_def sample_defs checker_defs Let_def)

lemma interrupted_polls_streak: "online_streak interrupted_polls = 6"
  by (simp add: interrupted_polls_def endpoint_fbs_def sample_defs online_streak_def resets_def
        config_read_throws_def endpoint_configured_def reports_online_def hasOwnProperty_def)

section \<open>Facts about the bus and the offline fallback\<close>

lemma take_listener_None: "name \<notin> fst ` set ls \<Longrightarrow> take_listener name ls = None"
  by (induction ls) auto


lemma bus_emit_unsubscribed:
  "unsubscribed b name \<Longrightarrow> bus_emit now name p b = b\<lparr>bus_log := bus_log b @ [(name, p)]\<rparr>"
  by (simp add: bus_emit_def unsubscribed_def take_listener_None)
















lemmas request_defs =
  sample_request_def offline_error_def bus_initial_def sample_config_def
  checkout_defaults_def checkin_defaults_def checkout_stored_event_def checkout_error_event_def
  checkin_stored_event_def checkin_error_event_def checkout_material_def checkin_material_def
  checkout_append_def checkin_append_def checkout_rejected_def checkin_rejected_def
  on_fbs_checkout_def on_fbs_checkin_def FBS_checkout_def FBS_checkIn_def
  bus_once_def bus_emit_def collaborator_emit_def


text \<open>
  Every method of the facade but \<^verbatim>\<open>libraryStatus\<close> emits \<^verbatim>\<open>fbs.action.result\<close> once, with
  its name and whether the transport reported an error; how the promise settles does not
  depend on the bus.
\<close>

lemma facade_calls_report_their_result:
  assumes "unsubscribed b ''fbs.action.result''"
  shows "snd (FBS_login now cl b) =
           b\<lparr>bus_log := bus_log b @ [(''fbs.action.result'', ActionResult ''Login'' (isl cl))]\<rparr> \<and>
         snd (FBS_patronInformation now cb b) =
           b\<lparr>bus_log := bus_log b @
                [(''fbs.action.result'', ActionResult ''Patron Information'' (isl cb))]\<rparr> \<and>
         snd (FBS_checkout now cb b) =
           b\<lparr>bus_log := bus_log b @ [(''fbs.action.result'', ActionResult ''Checkout'' (isl cb))]\<rparr> \<and>
         snd (FBS_checkIn now cb b) =
           b\<lparr>bus_log := bus_log b @ [(''fbs.action.result'', ActionResult ''Checkin'' (isl cb))]\<rparr> \<and>
         snd (FBS_renew now cb b) =
           b\<lparr>bus_log := bus_log b @ [(''fbs.action.result'', ActionResult ''Renew'' (isl cb))]\<rparr> \<and>
         snd (FBS_renewAll now cb b) =
           b\<lparr>bus_log := bus_log b @ [(''fbs.action.result'', ActionResult ''Renew All'' (isl cb))]\<rparr> \<and>
         snd (FBS_block now cb b) =
           b\<lparr>bus_log := bus_log b @ [(''fbs.action.result'', ActionResult ''Block'' (isl cb))]\<rparr> \<and>
         snd (FBS_libraryStatus now cs b) = b \<and>
         fst (FBS_login now cl b) = fst (FBS_login now cl b') \<and>
         fst (FBS_patronInformation now cb b) = cb \<and>
         fst (FBS_checkout now cb b) = cb \<and>
         fst (FBS_checkIn now cb b) = cb \<and>
         fst (FBS_renew now cb b) = cb \<and>
         fst (FBS_renewAll now cb b) = cb \<and>
         fst (FBS_block now cb b) = cb \<and>
         fst (FBS_libraryStatus now cs b) = cs"
  using assms
  by (simp add: FBS_login_def FBS_patronInformation_def FBS_checkout_def FBS_checkIn_def
        FBS_renew_def FBS_renewAll_def FBS_block_def FBS_libraryStatus_def bus_emit_unsubscribed)

section \<open>The properties\<close>

subsection \<open>The offline fallback\<close>






text \<open>
  C6. The events on which the fallback waits for the store are named after the item
  (lines 538, 545, 562, 563), not after the call, as \<^verbatim>\<open>FBS.create\<close> names its own with
  \<^verbatim>\<open>uniqid()\<close> (lines 49-50). Two patrons check out the same item while the back end is
  offline: both calls wait on the same two names, and the one confirmation of the first
  append delivers a provisional result to both callers.
\<close>

theorem one_confirmation_answers_two_checkouts:
  "checkout_stored_event other_request = checkout_stored_event sample_request \<and>
   checkout_error_event other_request = checkout_error_event sample_request \<and>
   map fst (bus_log
     (collaborator_emit 5 (checkout_stored_event sample_request) Stored
        (on_fbs_checkout 3 4 other_request (Inr (Some sample_config)) (Inl offline_error)
           (on_fbs_checkout 1 2 sample_request (Inr (Some sample_config)) (Inl offline_error)
              bus_initial)))) =
     [''fbs.action.result'', ''storage.append'', ''offline.add.checkout'',
      ''fbs.action.result'', ''storage.append'', ''offline.add.checkout'',
      ''caller.done'', ''other.done'']"
  by (simp add: other_request_def request_defs Let_def)

text \<open>
  C8. A checkout arrives at time 1000 with no dates of its own and finds the back end
  offline. The handler sets \<^verbatim>\<open>data.transactionDate\<close> (line 508), but the record it sends
  to the store takes its date from \<^verbatim>\<open>data.checkedInDate\<close> (line 555), which a checkout does
  not carry: the record has the action, the credentials, the item and the lock, and no
  time stamp, while the job carries the transaction date.
\<close>

theorem checkout_record_has_no_date:
  "bus_log (on_fbs_checkout 1000 1001 sample_request (Inr (Some sample_config)) (Inl offline_error)
              bus_initial) =
     [(''fbs.action.result'', ActionResult ''Checkout'' True),
      (''storage.append'',
         StorageAppend
           \<lparr>append_type = ''offline'', append_name = Some ''patron-1'',
            append_obj = \<lparr>obj_date = None, obj_action = ''checkout'',
                           obj_username = Some ''patron-1'', obj_password = Some ''1234'',
                           obj_itemIdentifier = ''item-7''\<rparr>,
            lockFile = True,
            append_busEvent = ''fbs.checkout.offline.storeditem-7'',
            append_errorEvent = ''fbs.checkout.offline.erroritem-7''\<rparr>),
      (''offline.add.checkout'',
         OfflineJob
           (sample_request\<lparr>queued := Some False, noBlockDueDate := Some 2678401000,
                            transactionDate := Some 1000, data_file := Some ''patron-1''\<rparr>))]"
  by (simp add: request_defs Let_def)

subsection \<open>The facade\<close>

text \<open>
  C7. \<^verbatim>\<open>libraryStatus\<close> (lines 71-84) has no \<^verbatim>\<open>bus.emit\<close>, unlike the seven other
  methods: a call of it, successful or failed, leaves the bus as it was.
\<close>

theorem library_status_reports_nothing:
  "bus_log (snd (FBS_libraryStatus 7 (Inr online_response) bus_initial)) = [] \<and>
   bus_log (snd (FBS_libraryStatus 7 (Inl offline_error) bus_initial)) = []"
  by (simp add: FBS_libraryStatus_def bus_initial_def)

subsection \<open>The online checker\<close>




text \<open>
  C3. Start after an offline excursion (offline, no successful check counted) and let any
  polls follow. If the checker is online afterwards, then more polls than the threshold
  have reached an online report since the last poll that reset, the poll that published
  \<^verbatim>\<open>fbs.online\<close> being one of them; polls in which \<^verbatim>\<open>FBS.create\<close> failed may lie between
  them. A poll in which \<^verbatim>\<open>libraryStatus\<close> fails, or answers with a response that does not
  pass the test of line 367, resets the counter to 0 and publishes \<^verbatim>\<open>fbs.offline\<close>. A poll
  in which \<^verbatim>\<open>FBS.create\<close> fails (or the read of line 358 throws) leaves the shared state
  as it is and publishes no state. Every other poll publishes the state it leaves, as
  \<^verbatim>\<open>fbs.online\<close> when the flag is set and as \<^verbatim>\<open>fbs.offline\<close> when it is not.
\<close>

theorem online_only_after_threshold_online_reports:
  assumes "successfulOnlineChecks (onlineState m) = 0" and "\<not> online (onlineState m)"
  shows "(online (onlineState (run_polls ps m)) \<longrightarrow>
            threshold (onlineState (run_polls ps m)) < online_streak ps) \<and>
         (\<not> config_read_throws f \<longrightarrow>
          (case ls of Inl err \<Rightarrow> True | Inr res \<Rightarrow> \<not> reports_online res) \<longrightarrow>
            resets (CreateResolved f ls) \<and>
            successfulOnlineChecks (onlineState (poll (now, CreateResolved f ls) m')) = 0 \<and>
            \<not> online (onlineState (poll (now, CreateResolved f ls) m')) \<and>
            emitted (poll (now, CreateResolved f ls) m') =
              emitted m' @ [StateEvent ''fbs.offline'' now
                              (onlineState (poll (now, CreateResolved f ls) m'))]) \<and>
         (leaves_untouched outcome \<longrightarrow>
            onlineState (poll (now, outcome) m') = onlineState m' \<and>
            state_events (poll (now, outcome) m') = state_events m') \<and>
         (\<not> leaves_untouched outcome \<longrightarrow>
            emitted (poll (now, outcome) m') =
              emitted m' @ [StateEvent (if online (onlineState (poll (now, outcome) m'))
                                        then ''fbs.online'' else ''fbs.offline'') now
                              (onlineState (poll (now, outcome) m'))])"
proof (intro conjI impI)
  assume "online (onlineState (run_polls ps m))"
  with streak_invariant [OF assms, of ps]
  show "threshold (onlineState (run_polls ps m)) < online_streak ps" by simp
next
  assume nt: "\<not> config_read_throws f"
    and bad: "case ls of Inl err \<Rightarrow> True | Inr res \<Rightarrow> \<not> reports_online res"
  then show r: "resets (CreateResolved f ls)"
    by (cases ls) (simp_all add: resets_def)
  from poll_resets [OF r, of now m']
  show "successfulOnlineChecks (onlineState (poll (now, CreateResolved f ls) m')) = 0"
    and "\<not> online (onlineState (poll (now, CreateResolved f ls) m'))"
    and "emitted (poll (now, CreateResolved f ls) m') =
              emitted m' @ [StateEvent ''fbs.offline'' now
                              (onlineState (poll (now, CreateResolved f ls) m'))]"
    by simp_all
next
  assume u: "leaves_untouched outcome"
  from poll_untouched [of "(now, outcome)" m'] u
  show "onlineState (poll (now, outcome) m') = onlineState m'"
    and "state_events (poll (now, outcome) m') = state_events m'"
    by simp_all
next
  assume "\<not> leaves_untouched outcome"
  then show "emitted (poll (now, outcome) m') =
              emitted m' @ [StateEvent (if online (onlineState (poll (now, outcome) m'))
                                        then ''fbs.online'' else ''fbs.offline'') now
                              (onlineState (poll (now, outcome) m'))]"
    by (rule poll_publishes)
qed

text \<open>
  C3 at seven polls, the fourth of which could not create the facade, with objects that
  pass the test of line 363.
\<close>

theorem online_only_after_threshold_online_reports_witness:
  "online (onlineState (run_polls interrupted_polls offline_monitor)) \<and>
   threshold (onlineState (run_polls interrupted_polls offline_monitor)) < online_streak interrupted_polls \<and>
   online_streak interrupted_polls = 6 \<and>
   resets (CreateResolved endpoint_fbs (Inl offline_error)) \<and>
   successfulOnlineChecks (onlineState (poll (8, CreateResolved endpoint_fbs (Inl offline_error))
      (run_polls interrupted_polls offline_monitor))) = 0 \<and>
   leaves_untouched (CreateRejected (Error ''no configuration'')) \<and>
   onlineState (poll (8, CreateRejected (Error ''no configuration''))
      (run_polls interrupted_polls offline_monitor)) =
     onlineState (run_polls interrupted_polls offline_monitor)"
  using online_only_after_threshold_online_reports
          [of offline_monitor interrupted_polls endpoint_fbs "Inl offline_error" 8
              "run_polls interrupted_polls offline_monitor" "CreateRejected (Error ''no configuration'')"]
  by (simp add: interrupted_polls_run interrupted_polls_streak)
     (simp add: sample_defs endpoint_fbs_def config_read_throws_def hasOwnProperty_def)

text \<open>
  C3 as the specification words it has every failed poll reset the counter and publish
  \<^verbatim>\<open>fbs.offline\<close>. A poll in which \<^verbatim>\<open>FBS.create\<close> fails does neither (lines 414-419).
\<close>

theorem uncreated_poll_keeps_counter:
  "successfulOnlineChecks
     (onlineState (poll (7, CreateRejected (Error ''no configuration'')) monitor_initial)) = 5 \<and>
   state_events (poll (7, CreateRejected (Error ''no configuration'')) monitor_initial) = []"
  by (simp add: sample_defs checker_defs state_events_def Let_def)

text \<open>
  C5. In a poll whose object fails the test of line 363 (no configuration, or no own
  property \<^verbatim>\<open>endpoint\<close>), the checker turns offline, resets the counter, schedules the next
  poll after \<^verbatim>\<open>offlineTimeout\<close> and publishes \<^verbatim>\<open>fbs.offline\<close>. In a poll in which
  \<^verbatim>\<open>FBS.create\<close> fails, it logs the failure and schedules the next poll after
  \<^verbatim>\<open>offlineTimeout\<close>, and leaves the shared state as it is. Either way the poll ends
  with a timer armed for the next poll.
\<close>

theorem unconfigured_forces_offline_uncreated_retries:
  assumes "\<not> endpoint_configured f" and "\<not> config_read_throws f"
  shows "\<not> online (onlineState (poll (now, CreateResolved f ls) m)) \<and>
         successfulOnlineChecks (onlineState (poll (now, CreateResolved f ls) m)) = 0 \<and>
         scheduled_after (offlineTimeout (onlineState (poll (now, CreateResolved f ls) m)))
           (poll (now, CreateResolved f ls) m) \<and>
         emitted (poll (now, CreateResolved f ls) m) =
           emitted m @ [StateEvent ''fbs.offline'' now
                          (onlineState (poll (now, CreateResolved f ls) m))] \<and>
         onlineState (poll (now, CreateRejected err) m) = onlineState m \<and>
         scheduled_after (offlineTimeout (onlineState m)) (poll (now, CreateRejected err) m) \<and>
         emitted (poll (now, CreateRejected err) m) =
           emitted m @ [LoggerInfo ''checkOnlineState: FBS.create(bus) promise failed. Retrying.'']"
proof -
  have "resets (CreateResolved f ls)"
    using assms by (simp add: resets_def)
  from poll_resets [OF this, of now m]
  have a: "\<not> online (onlineState (poll (now, CreateResolved f ls) m)) \<and>
         successfulOnlineChecks (onlineState (poll (now, CreateResolved f ls) m)) = 0 \<and>
         scheduled_after (offlineTimeout (onlineState (poll (now, CreateResolved f ls) m)))
           (poll (now, CreateResolved f ls) m) \<and>
         emitted (poll (now, CreateResolved f ls) m) =
           emitted m @ [StateEvent ''fbs.offline'' now
                          (onlineState (poll (now, CreateResolved f ls) m))]"
    by blast
  have b: "onlineState (poll (now, CreateRejected err) m) = onlineState m \<and>
         scheduled_after (offlineTimeout (onlineState m)) (poll (now, CreateRejected err) m) \<and>
         emitted (poll (now, CreateRejected err) m) =
           emitted m @ [LoggerInfo ''checkOnlineState: FBS.create(bus) promise failed. Retrying.'']"
    by (simp add: poll_def checkOnlineState_settle_def create_rejected_simps start_onlineState
          start_emitted)
  from a b show ?thesis by blast
qed

text \<open>
  C5 at the first poll after the start, with a configuration that has no endpoint, and
  with no configuration at all.
\<close>

theorem unconfigured_forces_offline_uncreated_retries_witness:
  "\<not> endpoint_configured (FBS_new (Some (sample_config\<lparr>endpoint := None\<rparr>))) \<and>
   \<not> config_read_throws (FBS_new (Some (sample_config\<lparr>endpoint := None\<rparr>))) \<and>
   \<not> online (onlineState (poll (7, CreateResolved (FBS_new (Some (sample_config\<lparr>endpoint := None\<rparr>)))
                                   (Inl offline_error)) monitor_initial)) \<and>
   successfulOnlineChecks
     (onlineState (poll (7, CreateResolved (FBS_new (Some (sample_config\<lparr>endpoint := None\<rparr>)))
                           (Inl offline_error)) monitor_initial)) = 0 \<and>
   scheduled_after 30000
     (poll (7, CreateResolved (FBS_new (Some (sample_config\<lparr>endpoint := None\<rparr>)))
              (Inl offline_error)) monitor_initial) \<and>
   scheduled_after 30000 (poll (7, CreateRejected (Error ''no configuration'')) monitor_initial)"
  using unconfigured_forces_offline_uncreated_retries
          [of "FBS_new (Some (sample_config\<lparr>endpoint := None\<rparr>))" 7 "Inl offline_error"
              monitor_initial "Error ''no configuration'' "]
  by (simp add: sample_defs checker_defs config_read_throws_def Let_def scheduled_after_def)

text \<open>
  C5 as the specification words it has the checker turn offline when \<^verbatim>\<open>FBS.create\<close>
  fails. After two such polls it is as online as it started.
\<close>

theorem uncreated_poll_stays_online:
  "online (onlineState (run_polls [(7, CreateRejected (Error ''no configuration'')),
                                   (8, CreateRejected (Error ''no configuration''))]
             monitor_initial))"
  by (simp add: sample_defs checker_defs Let_def)

text \<open>
  C9. The comment of line 348 asks for one poll timer at a time, and the start of a poll
  clears the one it knows of; the continuations arm theirs without clearing (lines 370,
  376, 382, 396, 407, 418). A first poll waits for its configuration; the watchdog fires
  and starts a second poll; then both settle. Two poll timers are armed, and one
  watchdog.
\<close>

theorem overlapping_polls_arm_two_poll_timers:
  "armed_as PollTimer
     (checkOnlineState_settle 400000 (CreateResolved (FBS_new (Some sample_config)) (Inr online_response))
       (checkOnlineState_settle 400000 (CreateResolved (FBS_new (Some sample_config)) (Inr online_response))
         (timer_fires 0 (checkOnlineState_start monitor_initial)))) = [2, 3] \<and>
   armed_as WatchdogTimer
     (checkOnlineState_settle 400000 (CreateResolved (FBS_new (Some sample_config)) (Inr online_response))
       (checkOnlineState_settle 400000 (CreateResolved (FBS_new (Some sample_config)) (Inr online_response))
         (timer_fires 0 (checkOnlineState_start monitor_initial)))) = [1]"
  by (simp add: sample_defs checker_defs armed_as_def Let_def)

text \<open>
  C10. The checker starts online with the counter at the threshold (lines 322-329), so
  that a first online report would keep it online. But the first poll, with an endpoint
  configured and the back end answering online, fails the test of line 363, which asks the
  \<^verbatim>\<open>FBS\<close> object, not its configuration, for \<^verbatim>\<open>endpoint\<close>: the checker turns offline.
\<close>

theorem first_poll_publishes_offline:
  "online (onlineState monitor_initial) \<and>
   successfulOnlineChecks (onlineState monitor_initial) = 5 \<and>
   threshold (onlineState monitor_initial) = 5 \<and>
   onlineState (poll (7, CreateResolved (FBS_new (Some sample_config)) (Inr online_response))
                  monitor_initial) =
     onlineState_initial\<lparr>online := False, successfulOnlineChecks := 0\<rparr> \<and>
   emitted (poll (7, CreateResolved (FBS_new (Some sample_config)) (Inr online_response))
                  monitor_initial) =
     [StateEvent ''fbs.offline'' 7 (onlineState_initial\<lparr>online := False, successfulOnlineChecks := 0\<rparr>)]"
  by (simp add: sample_defs checker_defs Let_def)

end
